theory Spec2Isabelle
  imports Main "HOL-Library.Word"
begin

section \<open>The media track of track.go\<close>

text \<open>
  A shallow embedding of \<^verbatim>\<open>track.go\<close>: the \<^verbatim>\<open>Track\<close> struct and its methods
  \<^verbatim>\<open>Read\<close>, \<^verbatim>\<open>peek\<close>, \<^verbatim>\<open>ReadRTP\<close>, \<^verbatim>\<open>Write\<close>, \<^verbatim>\<open>WriteSample\<close>, \<^verbatim>\<open>WriteRTP\<close>,
  \<^verbatim>\<open>determinePayloadType\<close> and the constructor \<^verbatim>\<open>NewTrack\<close>.

  Conventions of the embedding.
  \<^item> The model is sequential: one goroutine runs one method at a time, so taking and
    releasing \<^verbatim>\<open>t.mu\<close> has no effect and is not written. The order of the reads and
    writes of the fields inside each method is kept.
  \<^item> A pointer or slice that the source compares with \<^verbatim>\<open>nil\<close> (\<^verbatim>\<open>receiver\<close>,
    \<^verbatim>\<open>peeked\<close>) is an \<open>option\<close>. The track itself and the pointers a method
    dereferences without a test (the packet of \<^verbatim>\<open>WriteRTP\<close>, the codec of
    \<^verbatim>\<open>NewTrack\<close>, the packetizer of \<^verbatim>\<open>WriteSample\<close>) stand for valid objects and are
    modelled by the object pointed to.
  \<^item> A byte slice is a list of bytes whose length is also its capacity; a slice
    expression \<^verbatim>\<open>b[:n]\<close> out of range is the outcome \<open>Panic\<close>.
  \<^item> The collaborators (receiver, senders, packetizer, RTP deserialization, the
    flattening of errors) are not part of track.go. Each is a parameter of the
    functions that call it; the receiver and the senders are functions on a state
    \<open>'e\<close> of the collaborators, which they may change. A collaborator does not
    write to the track or to the packet handed to it.
  \<^item> \<open>calls\<close> is a ghost log: it records, in order, each call of \<^verbatim>\<open>WriteRTP\<close>, of a
    sender's \<^verbatim>\<open>SendRTP\<close> and of the receiver's \<^verbatim>\<open>readRTP\<close>, as the call counters of
    mock objects would. No function reads it.
\<close>

subsection \<open>Data\<close>

type_synonym byte = "8 word"

text \<open>Handles of the external objects a track refers to (\<^verbatim>\<open>*RTPReceiver\<close>, \<^verbatim>\<open>*RTPSender\<close>).\<close>

type_synonym RTPReceiver = nat
type_synonym RTPSender = nat

text \<open>
  Modelled from the spec: the declaration of \<^verbatim>\<open>RTPCodecType\<close> is not in track.go; the
  spec gives the kind of a track as its media type, audio or video.
\<close>

datatype RTPCodecType = RTPCodecTypeAudio | RTPCodecTypeVideo

text \<open>
  Modelled from the spec: the declaration of \<^verbatim>\<open>RTPCodec\<close> is not in track.go; the spec
  describes it as an immutable record exposing a payloader, a clock rate and a media
  kind, which are the three fields \<^verbatim>\<open>NewTrack\<close> reads. The payloader is an interface
  value, kept abstract as \<open>'pl\<close>.
\<close>

record 'pl RTPCodec =
  Type :: RTPCodecType
  ClockRate :: "32 word"
  Payloader :: 'pl

text \<open>
  \<^verbatim>\<open>rtp.Packet\<close> and \<^verbatim>\<open>rtp.Header\<close> belong to the RTP library. track.go reads the
  header, the payload and the header's payload type, and nothing else of a packet.
\<close>

record Header =
  PayloadType :: "8 word"

record Packet =
  Header :: Header
  Payload :: "byte list"

text \<open>\<^verbatim>\<open>media.Sample\<close>: the two fields \<^verbatim>\<open>WriteSample\<close> hands to the packetizer.\<close>

record Sample =
  Data :: "byte list"
  Samples :: nat

text \<open>
  Go's \<^verbatim>\<open>error\<close> values: the three error variables of the package that track.go
  returns, \<^verbatim>\<open>io.ErrClosedPipe\<close>, an error of a collaborator (identified by its
  message), and an aggregate of errors, as \<^verbatim>\<open>util.FlattenErrs\<close> returns.
\<close>

datatype error =
    errTrackLocalTrackRead
  | errTrackLocalTrackWrite
  | errTrackSSRCNewTrackZero
  | ErrClosedPipe
  | ExternalError string
  | AggregateError "error list"

text \<open>The struct \<^verbatim>\<open>Track\<close> (without the mutex). \<open>'pk\<close> is the packetizer object.\<close>

record ('pl, 'pk) Track =
  id' :: string
  payloadType :: "8 word"
  kind :: RTPCodecType
  label :: string
  ssrc :: "32 word"
  codec :: "'pl RTPCodec"
  rid :: string
  packetizer :: 'pk
  receiver :: "RTPReceiver option"
  activeSenders :: "RTPSender list"
  totalSenderCount :: int
  peeked :: "byte list option"

datatype call =
    CallReadRTP RTPReceiver nat
  | CallSendRTP RTPSender Header "byte list"
  | CallWriteRTP Packet

text \<open>The track, the state of its collaborators and the ghost log of calls.\<close>

record ('pl, 'pk, 'e) world =
  track :: "('pl, 'pk) Track"
  env :: 'e
  calls :: "call list"

text \<open>The outcome of a method that can panic.\<close>

datatype 'a outcome = Panic | Return 'a

subsection \<open>Collaborators\<close>

text \<open>
  \<^verbatim>\<open>r.readRTP(b, t)\<close>: from the receiver, the buffer, the track and the collaborators'
  state to \<^verbatim>\<open>(n, err)\<close>, the buffer as the receiver leaves it and the new state.
\<close>

type_synonym ('pl, 'pk, 'e) readRTP_fn =
  "RTPReceiver \<Rightarrow> byte list \<Rightarrow> ('pl, 'pk) Track \<Rightarrow> 'e \<Rightarrow> (int \<times> error option) \<times> byte list \<times> 'e"

text \<open>\<^verbatim>\<open>s.SendRTP(&p.Header, p.Payload)\<close>: returns \<^verbatim>\<open>(n, err)\<close> and the new state.\<close>

type_synonym 'e SendRTP_fn =
  "RTPSender \<Rightarrow> Header \<Rightarrow> byte list \<Rightarrow> 'e \<Rightarrow> (int \<times> error option) \<times> 'e"

text \<open>\<^verbatim>\<open>packet.Unmarshal(b)\<close>: the deserialization error or the packet.\<close>

type_synonym Unmarshal_fn = "byte list \<Rightarrow> error + Packet"

text \<open>
  \<^verbatim>\<open>t.packetizer.Packetize(s.Data, s.Samples)\<close>: the packets, and the packetizer with
  its sequence number and timestamp advanced.
\<close>

type_synonym 'pk Packetize_fn = "'pk \<Rightarrow> byte list \<Rightarrow> nat \<Rightarrow> Packet list \<times> 'pk"

text \<open>
  \<^verbatim>\<open>util.FlattenErrs(writeErrs)\<close> is declared in the package \<^verbatim>\<open>internal/util\<close>, not in
  track.go: \<^verbatim>\<open>WriteRTP\<close> and its callers take it as a parameter.
\<close>

type_synonym FlattenErrs_fn = "error list \<Rightarrow> error option"

text \<open>
  Modelled from the spec: \<^verbatim>\<open>util.FlattenErrs\<close>, which is not in track.go. The spec: the
  errors of the senders are collected into an aggregate; if the collection is empty the
  call succeeds, otherwise it fails with a combined error that preserves each underlying
  error.
\<close>

definition FlattenErrs :: FlattenErrs_fn where
  "FlattenErrs errs = (if errs = [] then None else Some (AggregateError errs))"

text \<open>The errors an error value stands for: those of an aggregate, or the error itself.\<close>

fun underlying :: "error \<Rightarrow> error list" where
  "underlying (AggregateError errs) = errs"
| "underlying e = [e]"

subsection \<open>Constants and built-ins\<close>

definition rtpOutboundMTU :: nat where
  "rtpOutboundMTU = 1200"

text \<open>
  Go's \<^verbatim>\<open>copy(dst, src)\<close>: copies \<open>min (len dst) (len src)\<close> elements and returns that
  number; the result is the number and the contents of \<open>dst\<close> afterwards.
\<close>

definition copy :: "'a list \<Rightarrow> 'a list \<Rightarrow> int \<times> 'a list" where
  "copy dst src =
     (let n = min (length dst) (length src)
      in (int n, take n src @ drop n dst))"

subsection \<open>Inbound path\<close>

text \<open>
  \<^verbatim>\<open>Read\<close>. The result is \<^verbatim>\<open>(n, err)\<close>, the caller's buffer afterwards and the world.
  In a sequential run the claimed \<open>data\<close> is never \<^verbatim>\<open>nil\<close> when \<open>peeked\<close> was seen
  set; the test of the source is kept.
\<close>

definition Read ::
  "('pl, 'pk, 'e) readRTP_fn \<Rightarrow> byte list \<Rightarrow> ('pl, 'pk, 'e) world
     \<Rightarrow> (int \<times> error option) \<times> byte list \<times> ('pl, 'pk, 'e) world" where
  "Read readRTP b w =
     (let r = receiver (track w) in
      if totalSenderCount (track w) \<noteq> 0 \<or> r = None
      then ((0, Some errTrackLocalTrackRead), b, w)
      else
        let was_peeked = (peeked (track w) \<noteq> None);
            (data, w1) =
              (if was_peeked
               then (peeked (track w), w\<lparr>track := (track w)\<lparr>peeked := None\<rparr>\<rparr>)
               else (None, w))
        in (case data of
              Some d \<Rightarrow> (let (n, b') = copy b d in ((n, None), b', w1))
            | None \<Rightarrow>
                (case readRTP (the r) b (track w1) (env w1) of
                   (res, b', e') \<Rightarrow>
                     (res, b',
                      w1\<lparr>env := e', calls := calls w1 @ [CallReadRTP (the r) (length b)]\<rparr>))))"

text \<open>
  \<^verbatim>\<open>peek\<close>. \<^verbatim>\<open>make([]byte, n)\<close> panics for a negative \<open>n\<close> and \<^verbatim>\<open>b[:n]\<close> for an \<open>n\<close>
  beyond the buffer.
\<close>

definition peek ::
  "('pl, 'pk, 'e) readRTP_fn \<Rightarrow> byte list \<Rightarrow> ('pl, 'pk, 'e) world
     \<Rightarrow> ((int \<times> error option) \<times> byte list \<times> ('pl, 'pk, 'e) world) outcome" where
  "peek readRTP b w =
     (case Read readRTP b w of
        ((n, Some err), b', w') \<Rightarrow> Return ((n, Some err), b', w')
      | ((n, None), b', w') \<Rightarrow>
          if n < 0 \<or> int (length b') < n then Panic
          else
            let (n', data) = copy (replicate (nat n) (0 :: byte)) (take (nat n) b')
            in Return ((n', None), b', w'\<lparr>track := (track w')\<lparr>peeked := Some data\<rparr>\<rparr>))"

text \<open>
  \<^verbatim>\<open>ReadRTP\<close>. \<open>receiveMTU\<close> is a constant of the package declared outside track.go,
  taken as a parameter. The result is the error or the packet.
\<close>

definition ReadRTP ::
  "('pl, 'pk, 'e) readRTP_fn \<Rightarrow> Unmarshal_fn \<Rightarrow> nat \<Rightarrow> ('pl, 'pk, 'e) world
     \<Rightarrow> ((error + Packet) \<times> ('pl, 'pk, 'e) world) outcome" where
  "ReadRTP readRTP unmarshal receiveMTU w =
     (let b = replicate receiveMTU (0 :: byte) in
      case Read readRTP b w of
        ((i, Some err), b', w') \<Rightarrow> Return (Inl err, w')
      | ((i, None), b', w') \<Rightarrow>
          if i < 0 \<or> int (length b') < i then Panic
          else (case unmarshal (take (nat i) b') of
                  Inl err \<Rightarrow> Return (Inl err, w')
                | Inr r \<Rightarrow> Return (Inr r, w')))"

text \<open>\<^verbatim>\<open>determinePayloadType\<close>. The result is the error, if any.\<close>

definition determinePayloadType ::
  "('pl, 'pk, 'e) readRTP_fn \<Rightarrow> Unmarshal_fn \<Rightarrow> nat \<Rightarrow> ('pl, 'pk, 'e) world
     \<Rightarrow> (error option \<times> ('pl, 'pk, 'e) world) outcome" where
  "determinePayloadType readRTP unmarshal receiveMTU w =
     (let b = replicate receiveMTU (0 :: byte) in
      case peek readRTP b w of
        Panic \<Rightarrow> Panic
      | Return ((n, Some err), b', w') \<Rightarrow> Return (Some err, w')
      | Return ((n, None), b', w') \<Rightarrow>
          if n < 0 \<or> int (length b') < n then Panic
          else (case unmarshal (take (nat n) b') of
                  Inl err \<Rightarrow> Return (Some err, w')
                | Inr r \<Rightarrow>
                    Return (None,
                      w'\<lparr>track := (track w')\<lparr>payloadType := PayloadType (Header r)\<rparr>\<rparr>)))"

subsection \<open>Outbound path\<close>

text \<open>
  The loop of \<^verbatim>\<open>WriteRTP\<close> over the snapshot of the active senders, with the
  accumulator \<open>writeErrs\<close>.
\<close>

fun WriteRTP_loop ::
  "'e SendRTP_fn \<Rightarrow> Packet \<Rightarrow> RTPSender list \<Rightarrow> error list \<Rightarrow> ('pl, 'pk, 'e) world
     \<Rightarrow> error list \<times> ('pl, 'pk, 'e) world" where
  "WriteRTP_loop sendRTP p [] writeErrs w = (writeErrs, w)"
| "WriteRTP_loop sendRTP p (s # senders) writeErrs w =
     (case sendRTP s (Header p) (Payload p) (env w) of
        ((n, err), e') \<Rightarrow>
          WriteRTP_loop sendRTP p senders
            (case err of Some e \<Rightarrow> writeErrs @ [e] | None \<Rightarrow> writeErrs)
            (w\<lparr>env := e', calls := calls w @ [CallSendRTP s (Header p) (Payload p)]\<rparr>))"

definition WriteRTP ::
  "FlattenErrs_fn \<Rightarrow> 'e SendRTP_fn \<Rightarrow> Packet \<Rightarrow> ('pl, 'pk, 'e) world
     \<Rightarrow> error option \<times> ('pl, 'pk, 'e) world" where
  "WriteRTP flattenErrs sendRTP p w0 =
     (let w = w0\<lparr>calls := calls w0 @ [CallWriteRTP p]\<rparr> in
      if receiver (track w) \<noteq> None then (Some errTrackLocalTrackWrite, w)
      else
        let senders = activeSenders (track w);
            totalSenderCount' = totalSenderCount (track w)
        in if totalSenderCount' = 0 then (Some ErrClosedPipe, w)
           else (let (writeErrs, w') = WriteRTP_loop sendRTP p senders [] w
                 in (flattenErrs writeErrs, w')))"

text \<open>\<^verbatim>\<open>Write\<close>.\<close>

definition Write ::
  "Unmarshal_fn \<Rightarrow> FlattenErrs_fn \<Rightarrow> 'e SendRTP_fn \<Rightarrow> byte list \<Rightarrow> ('pl, 'pk, 'e) world
     \<Rightarrow> (int \<times> error option) \<times> ('pl, 'pk, 'e) world" where
  "Write unmarshal flattenErrs sendRTP b w =
     (case unmarshal b of
        Inl err \<Rightarrow> ((0, Some err), w)
      | Inr packet \<Rightarrow>
          (case WriteRTP flattenErrs sendRTP packet w of
             (Some err, w') \<Rightarrow> ((0, Some err), w')
           | (None, w') \<Rightarrow> ((int (length b), None), w')))"

text \<open>\<^verbatim>\<open>WriteSample\<close>: the loop over the packets, then the method.\<close>

fun WriteSample_loop ::
  "FlattenErrs_fn \<Rightarrow> 'e SendRTP_fn \<Rightarrow> Packet list \<Rightarrow> ('pl, 'pk, 'e) world
     \<Rightarrow> error option \<times> ('pl, 'pk, 'e) world" where
  "WriteSample_loop flattenErrs sendRTP [] w = (None, w)"
| "WriteSample_loop flattenErrs sendRTP (p # packets) w =
     (case WriteRTP flattenErrs sendRTP p w of
        (Some err, w') \<Rightarrow> (Some err, w')
      | (None, w') \<Rightarrow> WriteSample_loop flattenErrs sendRTP packets w')"

definition WriteSample ::
  "'pk Packetize_fn \<Rightarrow> FlattenErrs_fn \<Rightarrow> 'e SendRTP_fn \<Rightarrow> Sample \<Rightarrow> ('pl, 'pk, 'e) world
     \<Rightarrow> error option \<times> ('pl, 'pk, 'e) world" where
  "WriteSample Packetize flattenErrs sendRTP s w =
     (case Packetize (packetizer (track w)) (Data s) (Samples s) of
        (packets, pk') \<Rightarrow>
          WriteSample_loop flattenErrs sendRTP packets
            (w\<lparr>track := (track w)\<lparr>packetizer := pk'\<rparr>\<rparr>))"

subsection \<open>Construction\<close>

text \<open>
  \<^verbatim>\<open>NewTrack\<close>. \<^verbatim>\<open>rtp.NewPacketizer\<close> belongs to the RTP library and is a parameter;
  \<open>sequencer\<close> is the value \<^verbatim>\<open>rtp.NewRandomSequencer()\<close> returns in this call. The
  fields the composite literal leaves out have Go's zero values.
\<close>

definition NewTrack ::
  "(nat \<Rightarrow> 8 word \<Rightarrow> 32 word \<Rightarrow> 'pl \<Rightarrow> 'sq \<Rightarrow> 32 word \<Rightarrow> 'pk) \<Rightarrow> 'sq
     \<Rightarrow> 8 word \<Rightarrow> 32 word \<Rightarrow> string \<Rightarrow> string \<Rightarrow> 'pl RTPCodec
     \<Rightarrow> error + ('pl, 'pk) Track" where
  "NewTrack NewPacketizer sequencer payloadType_arg ssrc_arg id_arg label_arg codec_arg =
     (if ssrc_arg = 0 then Inl errTrackSSRCNewTrackZero
      else
        let packetizer_new =
              NewPacketizer rtpOutboundMTU payloadType_arg ssrc_arg (Payloader codec_arg)
                sequencer (ClockRate codec_arg)
        in Inr \<lparr>id' = id_arg,
                payloadType = payloadType_arg,
                kind = Type codec_arg,
                label = label_arg,
                ssrc = ssrc_arg,
                codec = codec_arg,
                rid = [],
                packetizer = packetizer_new,
                receiver = None,
                activeSenders = [],
                totalSenderCount = 0,
                peeked = None\<rparr>)"

subsection \<open>Notions used to state the properties\<close>

text \<open>
  What the senders of a list return when each is called exactly once, in the order of
  the list, on the header and the payload of \<open>p\<close>, whatever the earlier ones
  returned; with the state of the collaborators after the last call.
\<close>

fun sender_results ::
  "'e SendRTP_fn \<Rightarrow> Packet \<Rightarrow> RTPSender list \<Rightarrow> 'e \<Rightarrow> (int \<times> error option) list \<times> 'e" where
  "sender_results sendRTP p [] e = ([], e)"
| "sender_results sendRTP p (s # senders) e =
     (case sendRTP s (Header p) (Payload p) e of
        (r, e') \<Rightarrow>
          (case sender_results sendRTP p senders e' of
             (rs, e'') \<Rightarrow> (r # rs, e'')))"

text \<open>The errors among the results of the senders, in order.\<close>

definition failures :: "(int \<times> error option) list \<Rightarrow> error list" where
  "failures rs = List.map_filter snd rs"

text \<open>The packets \<^verbatim>\<open>WriteRTP\<close> was called with, in the order of the calls.\<close>

fun WriteRTP_calls :: "call list \<Rightarrow> Packet list" where
  "WriteRTP_calls [] = []"
| "WriteRTP_calls (CallWriteRTP p # cs) = p # WriteRTP_calls cs"
| "WriteRTP_calls (c # cs) = WriteRTP_calls cs"

text \<open>
  \<open>all_written flattenErrs sendRTP packets w w'\<close>: calling \<^verbatim>\<open>WriteRTP\<close> on each packet of
  the list in order, starting in \<open>w\<close>, every call succeeds, and the last one leaves \<open>w'\<close>.
\<close>

inductive all_written ::
  "FlattenErrs_fn \<Rightarrow> 'e SendRTP_fn \<Rightarrow> Packet list \<Rightarrow> ('pl, 'pk, 'e) world
     \<Rightarrow> ('pl, 'pk, 'e) world \<Rightarrow> bool"
  for flattenErrs :: FlattenErrs_fn and sendRTP :: "'e SendRTP_fn" where
  all_written_Nil: "all_written flattenErrs sendRTP [] w w"
| all_written_Cons:
  "WriteRTP flattenErrs sendRTP p w = (None, w1)
     \<Longrightarrow> all_written flattenErrs sendRTP packets w1 w'
     \<Longrightarrow> all_written flattenErrs sendRTP (p # packets) w w'"

code_pred all_written .

subsection \<open>Stand-ins for the collaborators and example tracks\<close>

text \<open>
  A receiver that hands out the packets of a queue, one per call, and fails once the
  queue is empty. The state of the collaborators is the queue.
\<close>

definition queue_readRTP :: "('pl, 'pk, byte list list) readRTP_fn" where
  "queue_readRTP r b t q =
     (case q of
        [] \<Rightarrow> ((0, Some (ExternalError ''EOF'')), b, [])
      | pkt # q' \<Rightarrow> (let (n, b') = copy b pkt in ((n, None), b', q')))"

text \<open>
  Senders that fail as \<open>fail\<close> says (by sender and payload) and otherwise report the
  length of the payload. The state of the collaborators counts the calls.
\<close>

definition counting_SendRTP :: "(RTPSender \<Rightarrow> byte list \<Rightarrow> error option) \<Rightarrow> nat SendRTP_fn" where
  "counting_SendRTP fail s h pl e =
     (case fail s pl of
        Some err \<Rightarrow> ((0, Some err), Suc e)
      | None \<Rightarrow> ((int (length pl), None), Suc e))"

text \<open>
  A deserialization that needs two bytes, takes the second for the payload type and the
  rest for the payload.
\<close>

definition short_Unmarshal :: Unmarshal_fn where
  "short_Unmarshal b =
     (case b of
        x # y # rest \<Rightarrow> Inr \<lparr>Header = \<lparr>PayloadType = y\<rparr>, Payload = rest\<rparr>
      | _ \<Rightarrow> Inl (ExternalError ''short packet''))"

text \<open>A packetizer that makes one packet of each byte and counts the packets made.\<close>

definition byte_Packetize :: "nat Packetize_fn" where
  "byte_Packetize pk data samples =
     (map (\<lambda>x. \<lparr>Header = \<lparr>PayloadType = 96\<rparr>, Payload = [x]\<rparr>) data, pk + length data)"

definition example_codec :: "unit RTPCodec" where
  "example_codec = \<lparr>Type = RTPCodecTypeVideo, ClockRate = 90000, Payloader = ()\<rparr>"

definition example_track ::
  "RTPReceiver option \<Rightarrow> RTPSender list \<Rightarrow> int \<Rightarrow> byte list option \<Rightarrow> (unit, nat) Track" where
  "example_track r senders count pk =
     \<lparr>id' = ''video'', payloadType = 0, kind = RTPCodecTypeVideo, label = ''cam'',
      ssrc = 1, codec = example_codec, rid = [], packetizer = 0,
      receiver = r, activeSenders = senders, totalSenderCount = count, peeked = pk\<rparr>"

definition example_world :: "(unit, nat) Track \<Rightarrow> 'e \<Rightarrow> (unit, nat, 'e) world" where
  "example_world t e = \<lparr>track = t, env = e, calls = []\<rparr>"

definition example_packet :: "byte \<Rightarrow> Packet" where
  "example_packet x = \<lparr>Header = \<lparr>PayloadType = 96\<rparr>, Payload = [x]\<rparr>"

section \<open>Properties\<close>

subsection \<open>Auxiliary facts\<close>

lemma copy_eq:
  "copy dst src =
     (int (min (length dst) (length src)),
      take (min (length dst) (length src)) src @ drop (min (length dst) (length src)) dst)"
  by (simp add: copy_def Let_def)

lemma copy_make: "k \<le> length b \<Longrightarrow> copy (replicate k x) (take k b) = (int k, take k b)"
  by (simp add: copy_def Let_def min_def)

lemma Read_wrong_mode:
  "totalSenderCount (track w) \<noteq> 0 \<or> receiver (track w) = None \<Longrightarrow>
   Read readRTP b w = ((0, Some errTrackLocalTrackRead), b, w)"
  by (auto simp: Read_def Let_def)

lemma Read_peeked:
  "totalSenderCount (track w) = 0 \<Longrightarrow> receiver (track w) = Some r
     \<Longrightarrow> peeked (track w) = Some d \<Longrightarrow>
   Read readRTP b w =
     ((int (min (length b) (length d)), None),
      take (min (length b) (length d)) d @ drop (min (length b) (length d)) b,
      w\<lparr>track := (track w)\<lparr>peeked := None\<rparr>\<rparr>)"
  by (simp add: Read_def Let_def copy_eq)

lemma Read_live:
  "totalSenderCount (track w) = 0 \<Longrightarrow> receiver (track w) = Some r
     \<Longrightarrow> peeked (track w) = None \<Longrightarrow>
   Read readRTP b w =
     (case readRTP r b (track w) (env w) of
        (res, b', e') \<Rightarrow>
          (res, b', w\<lparr>env := e', calls := calls w @ [CallReadRTP r (length b)]\<rparr>))"
  by (simp add: Read_def Let_def split: prod.splits)

lemma Read_frame:
  assumes "Read readRTP b w = (res, b', w')"
  shows "payloadType (track w') = payloadType (track w) \<and>
         receiver (track w') = receiver (track w) \<and>
         totalSenderCount (track w') = totalSenderCount (track w)"
proof (cases "totalSenderCount (track w) \<noteq> 0 \<or> receiver (track w) = None")
  case True
  with assms show ?thesis by (simp add: Read_wrong_mode)
next
  case False
  then obtain r where mode: "totalSenderCount (track w) = 0" "receiver (track w) = Some r"
    by auto
  show ?thesis
  proof (cases "peeked (track w)")
    case None
    with assms mode show ?thesis by (auto simp: Read_live split: prod.splits)
  next
    case (Some d)
    with assms mode show ?thesis by (auto simp: Read_peeked)
  qed
qed

lemma Read_ok_remote:
  assumes "Read readRTP b w = ((n, None), b', w')"
  shows "totalSenderCount (track w) = 0 \<and> receiver (track w) \<noteq> None"
proof (rule ccontr)
  assume "\<not> ?thesis"
  then have "totalSenderCount (track w) \<noteq> 0 \<or> receiver (track w) = None" by auto
  from Read_wrong_mode [OF this, of readRTP b] assms show False by simp
qed

lemma peek_ok:
  assumes "peek readRTP b w = Return ((n, None), b', w')"
  shows "0 \<le> n \<and> n \<le> int (length b') \<and>
         (\<exists>w1. Read readRTP b w = ((n, None), b', w1) \<and>
               w' = w1\<lparr>track := (track w1)\<lparr>peeked := Some (take (nat n) b')\<rparr>\<rparr>)"
proof -
  obtain m err b1 w1 where rd: "Read readRTP b w = ((m, err), b1, w1)"
    by (metis surj_pair)
  show ?thesis
  proof (cases err)
    case (Some e)
    with assms rd show ?thesis by (simp add: peek_def)
  next
    case None
    show ?thesis
    proof (cases "m < 0 \<or> int (length b1) < m")
      case True
      with assms rd None show ?thesis by (simp add: peek_def)
    next
      case False
      then have "nat m \<le> length b1" by linarith
      then have "copy (replicate (nat m) (0 :: byte)) (take (nat m) b1) =
          (int (nat m), take (nat m) b1)"
        by (rule copy_make)
      with assms rd None False show ?thesis
        by (auto simp: peek_def)
    qed
  qed
qed

lemma peek_err:
  assumes "peek readRTP b w = Return ((n, Some err), b', w')"
  shows "Read readRTP b w = ((n, Some err), b', w')"
proof -
  obtain m e b1 w1 where rd: "Read readRTP b w = ((m, e), b1, w1)"
    by (metis surj_pair)
  show ?thesis
  proof (cases e)
    case (Some e1)
    with assms rd show ?thesis by (simp add: peek_def)
  next
    case None
    with assms rd show ?thesis
      by (auto simp: peek_def Let_def split: if_splits prod.splits)
  qed
qed

lemma peek_frame:
  assumes "peek readRTP b w = Return (res, b', w')"
  shows "payloadType (track w') = payloadType (track w) \<and>
         receiver (track w') = receiver (track w) \<and>
         totalSenderCount (track w') = totalSenderCount (track w)"
proof (cases res)
  case (Pair n e)
  show ?thesis
  proof (cases e)
    case None
    with assms Pair have "peek readRTP b w = Return ((n, None), b', w')" by simp
    from peek_ok [OF this] obtain w1 where
      "Read readRTP b w = ((n, None), b', w1)"
      "w' = w1\<lparr>track := (track w1)\<lparr>peeked := Some (take (nat n) b')\<rparr>\<rparr>" by blast
    then show ?thesis using Read_frame [of readRTP b w "(n, None)" b' w1] by simp
  next
    case (Some err)
    with assms Pair have "peek readRTP b w = Return ((n, Some err), b', w')" by simp
    from peek_err [OF this] show ?thesis using Read_frame by blast
  qed
qed

lemma Read_after_peek:
  assumes "peek readRTP b w = Return ((n, None), b', w')"
  shows "peeked (track w') = Some (take (nat n) b') \<and> length (take (nat n) b') = nat n \<and>
         0 \<le> n \<and>
         Read readRTP b2 w' =
           ((int (min (length b2) (nat n)), None),
            take (min (length b2) (nat n)) (take (nat n) b') @
              drop (min (length b2) (nat n)) b2,
            w'\<lparr>track := (track w')\<lparr>peeked := None\<rparr>\<rparr>)"
proof -
  from peek_ok [OF assms] obtain w1 where
    n: "0 \<le> n" "n \<le> int (length b')" and rd: "Read readRTP b w = ((n, None), b', w1)"
    and w': "w' = w1\<lparr>track := (track w1)\<lparr>peeked := Some (take (nat n) b')\<rparr>\<rparr>" by blast
  from Read_ok_remote [OF rd] Read_frame [OF rd]
  obtain r where mode: "totalSenderCount (track w1) = 0" "receiver (track w1) = Some r"
    by auto
  from n have len: "length (take (nat n) b') = nat n" by simp
  from mode w' have "totalSenderCount (track w') = 0" "receiver (track w') = Some r"
    "peeked (track w') = Some (take (nat n) b')" by simp_all
  from Read_peeked [OF this, of readRTP b2] len n w' show ?thesis by simp
qed

lemma failures_simps:
  "failures [] = []"
  "failures ((n, None) # rs) = failures rs"
  "failures ((n, Some e) # rs) = e # failures rs"
  by (simp_all add: failures_def)

lemma failures_empty_iff: "failures rs = [] \<longleftrightarrow> (\<forall>r\<in>set rs. snd r = None)"
  by (induction rs) (auto simp: failures_def split: option.splits)

lemma sender_results_length:
  "sender_results sendRTP p senders e = (rs, e') \<Longrightarrow> length rs = length senders"
  by (induction senders arbitrary: e rs) (auto split: prod.splits)

lemma WriteRTP_loop_results:
  "sender_results sendRTP p senders (env w) = (rs, e') \<Longrightarrow>
   WriteRTP_loop sendRTP p senders acc w =
     (acc @ failures rs,
      w\<lparr>env := e',
        calls := calls w @ map (\<lambda>s. CallSendRTP s (Header p) (Payload p)) senders\<rparr>)"
proof (induction senders arbitrary: acc w rs e')
  case Nil
  then show ?case by (simp add: failures_simps)
next
  case (Cons s senders)
  obtain n err e1 where step: "sendRTP s (Header p) (Payload p) (env w) = ((n, err), e1)"
    by (metis surj_pair)
  obtain rs1 e2 where rest: "sender_results sendRTP p senders e1 = (rs1, e2)"
    by (metis surj_pair)
  from Cons.prems step rest have rs: "rs = (n, err) # rs1" and e': "e' = e2"
    by simp_all
  let ?w1 = "w\<lparr>env := e1, calls := calls w @ [CallSendRTP s (Header p) (Payload p)]\<rparr>"
  from rest have "sender_results sendRTP p senders (env ?w1) = (rs1, e2)"
    by simp
  from Cons.IH [OF this] step rs e' show ?case
    by (cases err) (simp_all add: failures_simps)
qed

lemma WriteRTP_calls_append:
  "WriteRTP_calls (xs @ ys) = WriteRTP_calls xs @ WriteRTP_calls ys"
  by (induction xs rule: WriteRTP_calls.induct) simp_all

lemma WriteRTP_loop_calls:
  "WriteRTP_calls (calls (snd (WriteRTP_loop sendRTP p senders acc w))) =
   WriteRTP_calls (calls w)"
  by (induction senders arbitrary: acc w) (auto split: prod.splits simp: WriteRTP_calls_append)

lemma WriteRTP_logs:
  assumes "WriteRTP flattenErrs sendRTP p w = (r, w')"
  shows "WriteRTP_calls (calls w') = WriteRTP_calls (calls w) @ [p]"
proof -
  let ?w = "w\<lparr>calls := calls w @ [CallWriteRTP p]\<rparr>"
  have base: "WriteRTP_calls (calls ?w) = WriteRTP_calls (calls w) @ [p]"
    by (simp add: WriteRTP_calls_append)
  have "w' = ?w \<or> w' = snd (WriteRTP_loop sendRTP p (activeSenders (track ?w)) [] ?w)"
    using assms by (auto simp: WriteRTP_def Let_def split: if_splits prod.splits)
  then show ?thesis
    using base WriteRTP_loop_calls [of sendRTP p "activeSenders (track ?w)" "[]" ?w] by auto
qed

lemma WriteSample_loop_all_written:
  "all_written flattenErrs sendRTP packets w w' \<Longrightarrow>
   WriteSample_loop flattenErrs sendRTP packets w = (None, w') \<and>
   WriteRTP_calls (calls w') = WriteRTP_calls (calls w) @ packets"
  by (induction rule: all_written.induct) (auto dest: WriteRTP_logs)

lemma WriteSample_loop_first_failure:
  "all_written flattenErrs sendRTP ps1 w w1
     \<Longrightarrow> WriteRTP flattenErrs sendRTP p w1 = (Some err, w2) \<Longrightarrow>
   WriteSample_loop flattenErrs sendRTP (ps1 @ p # ps2) w = (Some err, w2) \<and>
   WriteRTP_calls (calls w2) = WriteRTP_calls (calls w) @ ps1 @ [p]"
  by (induction rule: all_written.induct) (auto dest: WriteRTP_logs)

lemma WriteSample_loop_cases:
  "(\<exists>w'. all_written flattenErrs sendRTP packets w w') \<or>
   (\<exists>ps1 p ps2 w1 err w2. packets = ps1 @ p # ps2 \<and>
       all_written flattenErrs sendRTP ps1 w w1 \<and>
       WriteRTP flattenErrs sendRTP p w1 = (Some err, w2))"
proof (induction packets arbitrary: w)
  case Nil
  show ?case by (auto intro: all_written.intros)
next
  case (Cons p packets)
  obtain r w1 where step: "WriteRTP flattenErrs sendRTP p w = (r, w1)" by (metis surj_pair)
  show ?case
  proof (cases r)
    case None
    from Cons.IH [of w1] show ?thesis
    proof
      assume "\<exists>w'. all_written flattenErrs sendRTP packets w1 w'"
      then show ?thesis using step None by (auto intro: all_written.intros)
    next
      assume "\<exists>ps1 q ps2 wa err w2. packets = ps1 @ q # ps2 \<and>
         all_written flattenErrs sendRTP ps1 w1 wa \<and>
         WriteRTP flattenErrs sendRTP q wa = (Some err, w2)"
      then obtain ps1 q ps2 wa err w2 where d: "packets = ps1 @ q # ps2"
        "all_written flattenErrs sendRTP ps1 w1 wa"
        "WriteRTP flattenErrs sendRTP q wa = (Some err, w2)" by blast
      from d(2) step None have "all_written flattenErrs sendRTP (p # ps1) w wa"
        by (auto intro: all_written.intros)
      moreover have "p # packets = (p # ps1) @ q # ps2" using d(1) by simp
      ultimately show ?thesis using d(3) by blast
    qed
  next
    case (Some err)
    have "p # packets = [] @ p # packets" by simp
    moreover have "all_written flattenErrs sendRTP [] w w" by (rule all_written.intros)
    ultimately show ?thesis using step Some by blast
  qed
qed

subsection \<open>Outbound path\<close>

text \<open>
  C1. A call of \<^verbatim>\<open>WriteRTP\<close> on a track with a nil receiver and a positive
  \<open>totalSenderCount\<close> calls \<^verbatim>\<open>SendRTP\<close> of every sender of the snapshot of
  \<open>activeSenders\<close> exactly once, in order, on the header and payload of the packet,
  whatever the earlier senders returned: the log grows by the call of \<^verbatim>\<open>WriteRTP\<close>
  followed by one \<^verbatim>\<open>SendRTP\<close> call per sender, and the results \<open>rs\<close> are those of
  calling each sender once. The call returns no error if and only if no sender returned
  one; otherwise it returns an aggregate whose underlying errors are exactly the errors
  of the senders, in order. (The aggregate is that of \<open>FlattenErrs\<close>.)
\<close>

theorem WriteRTP_fans_out_to_every_sender:
  assumes "receiver (track w) = None"
    and "0 < totalSenderCount (track w)"
    and "sender_results sendRTP p (activeSenders (track w)) (env w) = (rs, e')"
  shows "length rs = length (activeSenders (track w)) \<and>
         WriteRTP FlattenErrs sendRTP p w =
           (FlattenErrs (failures rs),
            w\<lparr>env := e',
              calls := calls w @ CallWriteRTP p #
                map (\<lambda>s. CallSendRTP s (Header p) (Payload p)) (activeSenders (track w))\<rparr>) \<and>
         (fst (WriteRTP FlattenErrs sendRTP p w) = None \<longleftrightarrow> (\<forall>r\<in>set rs. snd r = None)) \<and>
         (\<forall>agg. fst (WriteRTP FlattenErrs sendRTP p w) = Some agg
            \<longrightarrow> underlying agg = failures rs)"
proof -
  let ?w = "w\<lparr>calls := calls w @ [CallWriteRTP p]\<rparr>"
  let ?w' = "w\<lparr>env := e',
              calls := calls w @ CallWriteRTP p #
                map (\<lambda>s. CallSendRTP s (Header p) (Payload p)) (activeSenders (track w))\<rparr>"
  from assms(3) have "sender_results sendRTP p (activeSenders (track ?w)) (env ?w) = (rs, e')"
    by simp
  from WriteRTP_loop_results [OF this, of "[]"]
  have loop: "WriteRTP_loop sendRTP p (activeSenders (track w)) [] ?w = (failures rs, ?w')"
    by simp
  have res: "WriteRTP FlattenErrs sendRTP p w = (FlattenErrs (failures rs), ?w')"
    using assms(1,2) loop by (simp add: WriteRTP_def Let_def)
  have len: "length rs = length (activeSenders (track w))"
    using assms(3) by (rule sender_results_length)
  have iff: "FlattenErrs (failures rs) = None \<longleftrightarrow> (\<forall>r\<in>set rs. snd r = None)"
    by (simp add: FlattenErrs_def failures_empty_iff)
  have agg: "\<forall>agg. FlattenErrs (failures rs) = Some agg \<longrightarrow> underlying agg = failures rs"
    by (auto simp: FlattenErrs_def split: if_splits)
  show ?thesis using len res iff agg by simp
qed

text \<open>
  Three senders, of which the first two fail with different errors: all three are
  called and the aggregate holds both errors. With no failing sender the call succeeds.
\<close>

theorem WriteRTP_fans_out_to_every_sender_witness:
  "sender_results
     (counting_SendRTP (\<lambda>s pl. if s = 1 then Some (ExternalError ''stopped'')
                                else if s = 2 then Some ErrClosedPipe else None))
     (example_packet 7) [1, 2, 3] 0 =
     ([(0, Some (ExternalError ''stopped'')), (0, Some ErrClosedPipe), (1, None)], 3) \<and>
   WriteRTP FlattenErrs
     (counting_SendRTP (\<lambda>s pl. if s = 1 then Some (ExternalError ''stopped'')
                                else if s = 2 then Some ErrClosedPipe else None))
     (example_packet 7) (example_world (example_track None [1, 2, 3] 3 None) 0) =
     (Some (AggregateError [ExternalError ''stopped'', ErrClosedPipe]),
      \<lparr>track = example_track None [1, 2, 3] 3 None, env = 3,
       calls = [CallWriteRTP (example_packet 7),
                CallSendRTP 1 \<lparr>PayloadType = 96\<rparr> [7],
                CallSendRTP 2 \<lparr>PayloadType = 96\<rparr> [7],
                CallSendRTP 3 \<lparr>PayloadType = 96\<rparr> [7]]\<rparr>) \<and>
   WriteRTP FlattenErrs (counting_SendRTP (\<lambda>s pl. None))
     (example_packet 7) (example_world (example_track None [1, 2] 2 None) 0) =
     (None,
      \<lparr>track = example_track None [1, 2] 2 None, env = 2,
       calls = [CallWriteRTP (example_packet 7),
                CallSendRTP 1 \<lparr>PayloadType = 96\<rparr> [7],
                CallSendRTP 2 \<lparr>PayloadType = 96\<rparr> [7]]\<rparr>)"
proof -
  let ?fail = "\<lambda>(s :: RTPSender) (pl :: byte list).
     if s = 1 then Some (ExternalError ''stopped'')
     else if s = 2 then Some ErrClosedPipe else None"
  let ?w = "example_world (example_track None [1, 2, 3] 3 None) (0 :: nat)"
  let ?v = "example_world (example_track None [1, 2] 2 None) (0 :: nat)"
  have a1: "receiver (track ?w) = None" and a2: "0 < totalSenderCount (track ?w)"
    and b1: "receiver (track ?v) = None" and b2: "0 < totalSenderCount (track ?v)"
    by (simp_all add: example_world_def example_track_def)
  have a3: "sender_results (counting_SendRTP ?fail) (example_packet 7)
      (activeSenders (track ?w)) (env ?w) =
      ([(0, Some (ExternalError ''stopped'')), (0, Some ErrClosedPipe), (1, None)], 3)"
    by (simp add: example_world_def example_track_def example_packet_def counting_SendRTP_def)
  have b3: "sender_results (counting_SendRTP (\<lambda>s pl. None)) (example_packet 7)
      (activeSenders (track ?v)) (env ?v) = ([(1, None), (1, None)], 2)"
    by (simp add: example_world_def example_track_def example_packet_def counting_SendRTP_def)
  from WriteRTP_fans_out_to_every_sender [OF a1 a2 a3]
    WriteRTP_fans_out_to_every_sender [OF b1 b2 b3] a3
  show ?thesis
    by (simp add: example_world_def example_track_def example_packet_def failures_simps
        FlattenErrs_def)
qed

text \<open>
  C2. The checks of \<^verbatim>\<open>WriteRTP\<close> before any send. With a non-nil receiver it returns
  \<open>errTrackLocalTrackWrite\<close>; with a nil receiver and \<open>totalSenderCount = 0\<close> it
  returns \<open>ErrClosedPipe\<close>; with a nil receiver, a positive \<open>totalSenderCount\<close> and
  no active sender it returns no error. In all three cases the track and the state of
  the collaborators are those before the call, and the log grows by the call of
  \<^verbatim>\<open>WriteRTP\<close> alone: no sender is called. (The two failures hold for every
  flattening of errors; the success of the third case is that of \<open>FlattenErrs\<close>.)
\<close>

theorem WriteRTP_checks_before_send:
  "(receiver (track w) \<noteq> None \<longrightarrow>
      WriteRTP flattenErrs sendRTP p w =
        (Some errTrackLocalTrackWrite, w\<lparr>calls := calls w @ [CallWriteRTP p]\<rparr>)) \<and>
   (receiver (track w) = None \<and> totalSenderCount (track w) = 0 \<longrightarrow>
      WriteRTP flattenErrs sendRTP p w =
        (Some ErrClosedPipe, w\<lparr>calls := calls w @ [CallWriteRTP p]\<rparr>)) \<and>
   (receiver (track w) = None \<and> 0 < totalSenderCount (track w) \<and>
    activeSenders (track w) = [] \<longrightarrow>
      WriteRTP FlattenErrs sendRTP p w =
        (None, w\<lparr>calls := calls w @ [CallWriteRTP p]\<rparr>))"
  by (simp add: WriteRTP_def Let_def FlattenErrs_def)

theorem WriteRTP_checks_before_send_witness:
  "receiver (track (example_world (example_track (Some 5) [1] 1 None) (0 :: nat))) \<noteq> None \<and>
   WriteRTP FlattenErrs (counting_SendRTP (\<lambda>s pl. None)) (example_packet 7)
     (example_world (example_track (Some 5) [1] 1 None) 0) =
     (Some errTrackLocalTrackWrite,
      \<lparr>track = example_track (Some 5) [1] 1 None, env = 0,
       calls = [CallWriteRTP (example_packet 7)]\<rparr>) \<and>
   WriteRTP FlattenErrs (counting_SendRTP (\<lambda>s pl. None)) (example_packet 7)
     (example_world (example_track None [] 0 None) 0) =
     (Some ErrClosedPipe,
      \<lparr>track = example_track None [] 0 None, env = 0,
       calls = [CallWriteRTP (example_packet 7)]\<rparr>) \<and>
   WriteRTP FlattenErrs (counting_SendRTP (\<lambda>s pl. None)) (example_packet 7)
     (example_world (example_track None [] 2 None) 0) =
     (None,
      \<lparr>track = example_track None [] 2 None, env = 0,
       calls = [CallWriteRTP (example_packet 7)]\<rparr>)"
  using
    WriteRTP_checks_before_send [of "example_world (example_track (Some 5) [1] 1 None) (0 :: nat)"
      FlattenErrs "counting_SendRTP (\<lambda>s pl. None)" "example_packet 7"]
    WriteRTP_checks_before_send [of "example_world (example_track None [] 0 None) (0 :: nat)"
      FlattenErrs "counting_SendRTP (\<lambda>s pl. None)" "example_packet 7"]
    WriteRTP_checks_before_send [of "example_world (example_track None [] 2 None) (0 :: nat)"
      FlattenErrs "counting_SendRTP (\<lambda>s pl. None)" "example_packet 7"]
  by (simp add: example_world_def example_track_def)

text \<open>
  C5. \<^verbatim>\<open>WriteSample\<close> calls \<^verbatim>\<open>WriteRTP\<close> on the packets of the packetizer in the
  packetizer's order and stops at the first failure. If every call succeeds, it returns
  no error and \<^verbatim>\<open>WriteRTP\<close> has been called on every packet, in order. If the calls
  on the packets \<open>ps1\<close> succeed and the call on the next packet \<open>p\<close> fails with
  \<open>err\<close>, it returns exactly \<open>err\<close>, the world is the one that failing call left,
  and \<^verbatim>\<open>WriteRTP\<close> has been called on \<open>ps1\<close> and \<open>p\<close> only, not on the packets
  \<open>ps2\<close> after \<open>p\<close>. One of the two cases always applies.
\<close>

theorem WriteSample_fail_fast:
  assumes "Packetize (packetizer (track w)) (Data s) (Samples s) = (packets, pk')"
  shows "(all_written flattenErrs sendRTP packets
            (w\<lparr>track := (track w)\<lparr>packetizer := pk'\<rparr>\<rparr>) w' \<longrightarrow>
            WriteSample Packetize flattenErrs sendRTP s w = (None, w') \<and>
            WriteRTP_calls (calls w') = WriteRTP_calls (calls w) @ packets) \<and>
         (packets = ps1 @ p # ps2 \<and>
          all_written flattenErrs sendRTP ps1 (w\<lparr>track := (track w)\<lparr>packetizer := pk'\<rparr>\<rparr>) w1 \<and>
          WriteRTP flattenErrs sendRTP p w1 = (Some err, w2) \<longrightarrow>
            WriteSample Packetize flattenErrs sendRTP s w = (Some err, w2) \<and>
            WriteRTP_calls (calls w2) = WriteRTP_calls (calls w) @ ps1 @ [p]) \<and>
         ((\<exists>v. all_written flattenErrs sendRTP packets
                 (w\<lparr>track := (track w)\<lparr>packetizer := pk'\<rparr>\<rparr>) v) \<or>
          (\<exists>qs1 q qs2 v1 e v2. packets = qs1 @ q # qs2 \<and>
              all_written flattenErrs sendRTP qs1
                (w\<lparr>track := (track w)\<lparr>packetizer := pk'\<rparr>\<rparr>) v1 \<and>
              WriteRTP flattenErrs sendRTP q v1 = (Some e, v2)))"
proof -
  let ?w0 = "w\<lparr>track := (track w)\<lparr>packetizer := pk'\<rparr>\<rparr>"
  have run: "WriteSample Packetize flattenErrs sendRTP s w =
      WriteSample_loop flattenErrs sendRTP packets ?w0"
    using assms by (simp add: WriteSample_def)
  have log: "WriteRTP_calls (calls ?w0) = WriteRTP_calls (calls w)" by simp
  have ok: "all_written flattenErrs sendRTP packets ?w0 w' \<longrightarrow>
            WriteSample Packetize flattenErrs sendRTP s w = (None, w') \<and>
            WriteRTP_calls (calls w') = WriteRTP_calls (calls w) @ packets"
    using WriteSample_loop_all_written [of flattenErrs sendRTP packets ?w0 w'] run log
    by simp
  have stop: "packets = ps1 @ p # ps2 \<and> all_written flattenErrs sendRTP ps1 ?w0 w1 \<and>
          WriteRTP flattenErrs sendRTP p w1 = (Some err, w2) \<longrightarrow>
            WriteSample Packetize flattenErrs sendRTP s w = (Some err, w2) \<and>
            WriteRTP_calls (calls w2) = WriteRTP_calls (calls w) @ ps1 @ [p]"
    using WriteSample_loop_first_failure [of flattenErrs sendRTP ps1 ?w0 w1 p err w2 ps2] run log
    by simp
  from ok stop WriteSample_loop_cases [of flattenErrs sendRTP packets ?w0]
  show ?thesis by blast
qed

text \<open>
  A sample of three bytes gives the packets 1, 2, 3; the only sender fails on the
  payload of packet 2. \<^verbatim>\<open>WriteRTP\<close> is called on packets 1 and 2 and the error of the
  second call is returned. With a sender that never fails, a sample of two bytes is
  written whole.
\<close>

theorem WriteSample_fail_fast_witness:
  "WriteSample byte_Packetize FlattenErrs
     (counting_SendRTP (\<lambda>s pl. if pl = [2] then Some (ExternalError ''stopped'') else None))
     \<lparr>Data = [1, 2, 3], Samples = 3\<rparr>
     (example_world (example_track None [1] 1 None) 0) =
     (Some (AggregateError [ExternalError ''stopped'']),
      \<lparr>track = (example_track None [1] 1 None)\<lparr>packetizer := 3\<rparr>, env = 2,
       calls = [CallWriteRTP (example_packet 1), CallSendRTP 1 \<lparr>PayloadType = 96\<rparr> [1],
                CallWriteRTP (example_packet 2), CallSendRTP 1 \<lparr>PayloadType = 96\<rparr> [2]]\<rparr>) \<and>
   WriteSample byte_Packetize FlattenErrs (counting_SendRTP (\<lambda>s pl. None))
     \<lparr>Data = [1, 2], Samples = 2\<rparr>
     (example_world (example_track None [1] 1 None) 0) =
     (None,
      \<lparr>track = (example_track None [1] 1 None)\<lparr>packetizer := 2\<rparr>, env = 2,
       calls = [CallWriteRTP (example_packet 1), CallSendRTP 1 \<lparr>PayloadType = 96\<rparr> [1],
                CallWriteRTP (example_packet 2), CallSendRTP 1 \<lparr>PayloadType = 96\<rparr> [2]]\<rparr>)"
proof -
  let ?bad = "counting_SendRTP
     (\<lambda>(s :: RTPSender) (pl :: byte list). if pl = [2] then Some (ExternalError ''stopped'') else None)"
  let ?good = "counting_SendRTP (\<lambda>(s :: RTPSender) (pl :: byte list). None :: error option)"
  let ?t = "example_track None [1] 1 None"
  let ?w = "example_world ?t (0 :: nat)"
  let ?c1 = "[CallWriteRTP (example_packet 1), CallSendRTP 1 \<lparr>PayloadType = 96\<rparr> [1]]"
  let ?c2 = "?c1 @ [CallWriteRTP (example_packet 2), CallSendRTP 1 \<lparr>PayloadType = 96\<rparr> [2]]"
  let ?a0 = "?w\<lparr>track := (track ?w)\<lparr>packetizer := 3\<rparr>\<rparr>"
  let ?a1 = "\<lparr>track = ?t\<lparr>packetizer := 3\<rparr>, env = 1 :: nat, calls = ?c1\<rparr>"
  let ?a2 = "\<lparr>track = ?t\<lparr>packetizer := 3\<rparr>, env = 2 :: nat, calls = ?c2\<rparr>"
  let ?b0 = "?w\<lparr>track := (track ?w)\<lparr>packetizer := 2\<rparr>\<rparr>"
  let ?b1 = "\<lparr>track = ?t\<lparr>packetizer := 2\<rparr>, env = 1 :: nat, calls = ?c1\<rparr>"
  let ?b2 = "\<lparr>track = ?t\<lparr>packetizer := 2\<rparr>, env = 2 :: nat, calls = ?c2\<rparr>"
  have pa: "byte_Packetize (packetizer (track ?w)) (Data \<lparr>Data = [1, 2, 3], Samples = 3\<rparr>)
      (Samples \<lparr>Data = [1, 2, 3], Samples = 3\<rparr>) =
      ([example_packet 1, example_packet 2, example_packet 3], 3)"
    by (simp add: byte_Packetize_def example_packet_def example_world_def example_track_def)
  have pb: "byte_Packetize (packetizer (track ?w)) (Data \<lparr>Data = [1, 2], Samples = 2\<rparr>)
      (Samples \<lparr>Data = [1, 2], Samples = 2\<rparr>) =
      ([example_packet 1, example_packet 2], 2)"
    by (simp add: byte_Packetize_def example_packet_def example_world_def example_track_def)
  have a01: "WriteRTP FlattenErrs ?bad (example_packet 1) ?a0 = (None, ?a1)"
    by (simp add: WriteRTP_def FlattenErrs_def counting_SendRTP_def example_packet_def
        example_world_def example_track_def)
  have a12: "WriteRTP FlattenErrs ?bad (example_packet 2) ?a1 =
      (Some (AggregateError [ExternalError ''stopped'']), ?a2)"
    by (simp add: WriteRTP_def FlattenErrs_def counting_SendRTP_def example_packet_def
        example_track_def)
  have b01: "WriteRTP FlattenErrs ?good (example_packet 1) ?b0 = (None, ?b1)"
    by (simp add: WriteRTP_def FlattenErrs_def counting_SendRTP_def example_packet_def
        example_world_def example_track_def)
  have b12: "WriteRTP FlattenErrs ?good (example_packet 2) ?b1 = (None, ?b2)"
    by (simp add: WriteRTP_def FlattenErrs_def counting_SendRTP_def example_packet_def
        example_track_def)
  have a_ok: "all_written FlattenErrs ?bad [example_packet 1] ?a0 ?a1"
    by (rule all_written_Cons [OF a01 all_written_Nil])
  have b_ok: "all_written FlattenErrs ?good [example_packet 1, example_packet 2] ?b0 ?b2"
    by (rule all_written_Cons [OF b01 all_written_Cons [OF b12 all_written_Nil]])
  have split: "[example_packet 1, example_packet 2, example_packet 3] =
      [example_packet 1] @ example_packet 2 # [example_packet 3]"
    by simp
  from WriteSample_fail_fast [where Packetize = byte_Packetize and w = ?w
      and s = "\<lparr>Data = [1, 2, 3], Samples = 3\<rparr>"
      and packets = "[example_packet 1, example_packet 2, example_packet 3]" and pk' = 3
      and flattenErrs = FlattenErrs and sendRTP = ?bad and w' = ?a1
      and ?ps1.0 = "[example_packet 1]" and p = "example_packet 2"
      and ?ps2.0 = "[example_packet 3]" and ?w1.0 = ?a1
      and err = "AggregateError [ExternalError ''stopped'']" and ?w2.0 = ?a2]
    pa split a_ok a12
  have A: "WriteSample byte_Packetize FlattenErrs ?bad \<lparr>Data = [1, 2, 3], Samples = 3\<rparr> ?w =
      (Some (AggregateError [ExternalError ''stopped'']), ?a2)"
    by blast
  from WriteSample_fail_fast [where Packetize = byte_Packetize and w = ?w
      and s = "\<lparr>Data = [1, 2], Samples = 2\<rparr>"
      and packets = "[example_packet 1, example_packet 2]" and pk' = 2
      and flattenErrs = FlattenErrs and sendRTP = ?good and w' = ?b2
      and ?ps1.0 = "[]" and p = "example_packet 1" and ?ps2.0 = "[]" and ?w1.0 = ?b2
      and err = ErrClosedPipe and ?w2.0 = ?b2]
    pb b_ok
  have B: "WriteSample byte_Packetize FlattenErrs ?good \<lparr>Data = [1, 2], Samples = 2\<rparr> ?w =
      (None, ?b2)"
    by blast
  from A B show ?thesis by simp
qed

text \<open>
  C6. \<^verbatim>\<open>Write(b)\<close> deserializes \<open>b\<close> and forwards the packet to \<^verbatim>\<open>WriteRTP\<close>. If
  the deserialization fails, it returns \<open>0\<close> and that error and the world, log
  included, is untouched: \<^verbatim>\<open>WriteRTP\<close> is not called. If \<^verbatim>\<open>WriteRTP\<close> fails, it returns
  \<open>0\<close> and that error. If \<^verbatim>\<open>WriteRTP\<close> succeeds, it returns the length of \<open>b\<close> and
  no error, whatever the senders returned. In the last two cases the world is the one
  \<^verbatim>\<open>WriteRTP\<close> left.
\<close>

theorem Write_forwards_to_WriteRTP:
  "(unmarshal b = Inl err \<longrightarrow>
      Write unmarshal flattenErrs sendRTP b w = ((0, Some err), w)) \<and>
   (unmarshal b = Inr packet \<and> WriteRTP flattenErrs sendRTP packet w = (Some err, w') \<longrightarrow>
      Write unmarshal flattenErrs sendRTP b w = ((0, Some err), w')) \<and>
   (unmarshal b = Inr packet \<and> WriteRTP flattenErrs sendRTP packet w = (None, w') \<longrightarrow>
      Write unmarshal flattenErrs sendRTP b w = ((int (length b), None), w'))"
  by (simp add: Write_def)

text \<open>
  One byte does not deserialize; three bytes written to a remote track fail in
  \<^verbatim>\<open>WriteRTP\<close>; three bytes written to a local track return 3, although the sender
  reported 1 (the length of the payload).
\<close>

theorem Write_forwards_to_WriteRTP_witness:
  "short_Unmarshal [1] = Inl (ExternalError ''short packet'') \<and>
   Write short_Unmarshal FlattenErrs (counting_SendRTP (\<lambda>s pl. None)) [1]
     (example_world (example_track None [1] 1 None) 0) =
     ((0, Some (ExternalError ''short packet'')),
      example_world (example_track None [1] 1 None) 0) \<and>
   Write short_Unmarshal FlattenErrs (counting_SendRTP (\<lambda>s pl. None)) [128, 96, 7]
     (example_world (example_track (Some 5) [] 0 None) 0) =
     ((0, Some errTrackLocalTrackWrite),
      \<lparr>track = example_track (Some 5) [] 0 None, env = 0,
       calls = [CallWriteRTP (example_packet 7)]\<rparr>) \<and>
   sender_results (counting_SendRTP (\<lambda>s pl. None)) (example_packet 7) [1] 0 =
     ([(1, None)], 1) \<and>
   Write short_Unmarshal FlattenErrs (counting_SendRTP (\<lambda>s pl. None)) [128, 96, 7]
     (example_world (example_track None [1] 1 None) 0) =
     ((3, None),
      \<lparr>track = example_track None [1] 1 None, env = 1,
       calls = [CallWriteRTP (example_packet 7), CallSendRTP 1 \<lparr>PayloadType = 96\<rparr> [7]]\<rparr>)"
proof -
  let ?send = "counting_SendRTP (\<lambda>(s :: RTPSender) (pl :: byte list). None :: error option)"
  let ?local = "example_world (example_track None [1] 1 None) (0 :: nat)"
  let ?remote = "example_world (example_track (Some 5) [] 0 None) (0 :: nat)"
  let ?r' = "\<lparr>track = example_track (Some 5) [] 0 None, env = 0 :: nat,
       calls = [CallWriteRTP (example_packet 7)]\<rparr>"
  let ?l' = "\<lparr>track = example_track None [1] 1 None, env = 1 :: nat,
       calls = [CallWriteRTP (example_packet 7), CallSendRTP 1 \<lparr>PayloadType = 96\<rparr> [7]]\<rparr>"
  have u1: "short_Unmarshal [1] = Inl (ExternalError ''short packet'')"
    by (simp add: short_Unmarshal_def)
  have u3: "short_Unmarshal [128, 96, 7] = Inr (example_packet 7)"
    by (simp add: short_Unmarshal_def example_packet_def)
  have wr: "WriteRTP FlattenErrs ?send (example_packet 7) ?remote =
      (Some errTrackLocalTrackWrite, ?r')"
    by (simp add: WriteRTP_def example_world_def example_track_def)
  have wl: "WriteRTP FlattenErrs ?send (example_packet 7) ?local = (None, ?l')"
    by (simp add: WriteRTP_def FlattenErrs_def counting_SendRTP_def example_packet_def
        example_world_def example_track_def)
  have sr: "sender_results ?send (example_packet 7) [1] 0 = ([(1, None)], 1)"
    by (simp add: counting_SendRTP_def example_packet_def)
  from Write_forwards_to_WriteRTP [of short_Unmarshal "[1]" "ExternalError ''short packet''"
      FlattenErrs ?send ?local "example_packet 7" ?local]
    Write_forwards_to_WriteRTP [of short_Unmarshal "[128, 96, 7]" errTrackLocalTrackWrite
      FlattenErrs ?send ?remote "example_packet 7" ?r']
    Write_forwards_to_WriteRTP [of short_Unmarshal "[128, 96, 7]" errTrackLocalTrackWrite
      FlattenErrs ?send ?local "example_packet 7" ?l']
    u1 u3 wr wl sr
  show ?thesis by simp
qed

subsection \<open>Construction\<close>

text \<open>
  C4. \<^verbatim>\<open>NewTrack\<close> with \<open>ssrc = 0\<close> returns \<open>errTrackSSRCNewTrackZero\<close> and no track.
  With any other \<open>ssrc\<close> it returns a track whose \<open>ssrc\<close>, \<open>payloadType\<close> and
  \<open>codec\<close> (and \<open>id\<close>, \<open>label\<close>) are the arguments, whose \<open>kind\<close> is the media
  type of the codec, whose receiver is nil and which has no sender: \<open>activeSenders\<close>
  is empty and \<open>totalSenderCount\<close> is 0.
\<close>

theorem NewTrack_construction:
  "NewTrack NewPacketizer sequencer pt 0 i l c = Inl errTrackSSRCNewTrackZero \<and>
   (s \<noteq> 0 \<longrightarrow>
      (\<exists>t. NewTrack NewPacketizer sequencer pt s i l c = Inr t \<and>
           ssrc t = s \<and> payloadType t = pt \<and> kind t = Type c \<and> codec t = c \<and>
           id' t = i \<and> label t = l \<and>
           receiver t = None \<and> activeSenders t = [] \<and> totalSenderCount t = 0))"
  by (simp add: NewTrack_def Let_def)

theorem NewTrack_construction_witness:
  "(1 :: 32 word) \<noteq> 0 \<and>
   NewTrack (\<lambda>mtu pt s pl sq rate. 0 :: nat) () 96 0 ''video'' ''cam'' example_codec =
     Inl errTrackSSRCNewTrackZero \<and>
   (\<exists>t. NewTrack (\<lambda>mtu pt s pl sq rate. 0 :: nat) () 96 1 ''video'' ''cam'' example_codec =
          Inr t \<and>
        ssrc t = 1 \<and> payloadType t = 96 \<and> kind t = RTPCodecTypeVideo \<and>
        codec t = example_codec \<and> id' t = ''video'' \<and> label t = ''cam'' \<and>
        receiver t = None \<and> activeSenders t = [] \<and> totalSenderCount t = 0)"
  using NewTrack_construction [of "\<lambda>mtu pt s pl sq rate. 0 :: nat" "()" 96 "''video''" "''cam''"
      example_codec 1]
  by (simp add: example_codec_def)

subsection \<open>Inbound path\<close>

text \<open>
  C3. On a track with \<open>totalSenderCount \<noteq> 0\<close> or a nil receiver, \<^verbatim>\<open>Read\<close> returns
  \<open>n = 0\<close> and \<open>errTrackLocalTrackRead\<close> at once: the buffer and the whole world
  (track, state of the collaborators, log of calls) are those before the call, so the
  receiver is not called and nothing is waited for. \<^verbatim>\<open>ReadRTP\<close> then returns the same
  error and no packet, with the world unchanged as well.
\<close>

theorem Read_rejects_local_track:
  "totalSenderCount (track w) \<noteq> 0 \<or> receiver (track w) = None \<Longrightarrow>
   Read readRTP b w = ((0, Some errTrackLocalTrackRead), b, w) \<and>
   ReadRTP readRTP unmarshal receiveMTU w = Return (Inl errTrackLocalTrackRead, w)"
  by (simp add: Read_wrong_mode ReadRTP_def Let_def)

text \<open>
  A track with one sender and no receiver, and a track with a receiver and a sender:
  the packet waiting in the receiver's queue stays there.
\<close>

theorem Read_rejects_local_track_witness:
  "totalSenderCount (track (example_world (example_track None [1] 1 None) [[1 :: byte, 2]])) = 1 \<and>
   receiver (track (example_world (example_track None [1] 1 None) [[1 :: byte, 2]])) = None \<and>
   Read queue_readRTP [0, 0] (example_world (example_track None [1] 1 None) [[1, 2]]) =
     ((0, Some errTrackLocalTrackRead), [0, 0],
      example_world (example_track None [1] 1 None) [[1, 2]]) \<and>
   ReadRTP queue_readRTP short_Unmarshal 4
     (example_world (example_track None [1] 1 None) [[1, 2]]) =
     Return (Inl errTrackLocalTrackRead,
       example_world (example_track None [1] 1 None) [[1, 2]]) \<and>
   Read queue_readRTP [0, 0] (example_world (example_track (Some 5) [1] 1 None) [[1, 2]]) =
     ((0, Some errTrackLocalTrackRead), [0, 0],
      example_world (example_track (Some 5) [1] 1 None) [[1, 2]])"
proof -
  let ?w = "example_world (example_track None [1] 1 None) [[1 :: byte, 2]]"
  let ?v = "example_world (example_track (Some 5) [1] 1 None) [[1 :: byte, 2]]"
  have hw: "totalSenderCount (track ?w) \<noteq> 0 \<or> receiver (track ?w) = None"
    and hv: "totalSenderCount (track ?v) \<noteq> 0 \<or> receiver (track ?v) = None"
    by (simp_all add: example_world_def example_track_def)
  from Read_rejects_local_track [OF hw, of queue_readRTP "[0, 0]" short_Unmarshal 4]
    Read_rejects_local_track [OF hv, of queue_readRTP "[0, 0]" short_Unmarshal 4]
  show ?thesis by (simp add: example_world_def example_track_def)
qed

text \<open>
  C9. On a remote track (a receiver, \<open>totalSenderCount = 0\<close>) with a peeked packet
  \<open>d\<close> of length \<open>m\<close>, \<^verbatim>\<open>Read\<close> into a buffer of length \<open>k\<close> returns
  \<open>n = min k m\<close> and no error, puts the first \<open>n\<close> bytes of \<open>d\<close> in the buffer and
  clears \<open>peeked\<close>; the receiver is not called. When \<open>k < m\<close> the bytes of \<open>d\<close>
  from \<open>k\<close> on are in neither the buffer nor the track afterwards, and the whole
  result (count, error, buffer, world) is the one \<^verbatim>\<open>Read\<close> gives for a peeked packet
  of exactly the first \<open>k\<close> bytes: nothing tells the truncation.
\<close>

theorem Read_claims_peeked_truncating:
  assumes "totalSenderCount (track w) = 0"
    and "receiver (track w) = Some r"
    and "peeked (track w) = Some d"
  shows "Read readRTP b w =
           ((int (min (length b) (length d)), None),
            take (min (length b) (length d)) d @ drop (min (length b) (length d)) b,
            w\<lparr>track := (track w)\<lparr>peeked := None\<rparr>\<rparr>) \<and>
         (length b < length d \<longrightarrow>
            Read readRTP b w =
              ((int (length b), None), take (length b) d,
               w\<lparr>track := (track w)\<lparr>peeked := None\<rparr>\<rparr>) \<and>
            Read readRTP b w =
              Read readRTP b (w\<lparr>track := (track w)\<lparr>peeked := Some (take (length b) d)\<rparr>\<rparr>))"
proof -
  have general: "Read readRTP b w =
           ((int (min (length b) (length d)), None),
            take (min (length b) (length d)) d @ drop (min (length b) (length d)) b,
            w\<lparr>track := (track w)\<lparr>peeked := None\<rparr>\<rparr>)"
    using assms by (rule Read_peeked)
  let ?w = "w\<lparr>track := (track w)\<lparr>peeked := Some (take (length b) d)\<rparr>\<rparr>"
  have "totalSenderCount (track ?w) = 0" "receiver (track ?w) = Some r"
    "peeked (track ?w) = Some (take (length b) d)" using assms by simp_all
  from Read_peeked [OF this, of readRTP b]
  have short: "length b < length d \<Longrightarrow> Read readRTP b ?w =
      ((int (length b), None), take (length b) d, w\<lparr>track := (track w)\<lparr>peeked := None\<rparr>\<rparr>)"
    by (simp add: min_def)
  show ?thesis using general short by (simp add: min_def)
qed

text \<open>A peeked packet of three bytes read into a buffer of two.\<close>

theorem Read_claims_peeked_truncating_witness:
  "Read queue_readRTP [0, 0]
     (example_world (example_track (Some 5) [] 0 (Some [1, 2, 3])) [[4 :: byte]]) =
     ((2, None), [1, 2], example_world (example_track (Some 5) [] 0 None) [[4]]) \<and>
   Read queue_readRTP [0, 0]
     (example_world (example_track (Some 5) [] 0 (Some [1, 2, 3])) [[4 :: byte]]) =
   Read queue_readRTP [0, 0]
     (example_world (example_track (Some 5) [] 0 (Some [1, 2])) [[4 :: byte]])"
proof -
  let ?w = "example_world (example_track (Some 5) [] 0 (Some [1, 2, 3])) [[4 :: byte]]"
  have h: "totalSenderCount (track ?w) = 0" "receiver (track ?w) = Some 5"
    "peeked (track ?w) = Some [1, 2, 3]"
    by (simp_all add: example_world_def example_track_def)
  from Read_claims_peeked_truncating [OF h, of queue_readRTP "[0, 0]"]
  show ?thesis by (auto simp: example_world_def example_track_def)
qed

text \<open>
  C8. Without interleaving, when \<^verbatim>\<open>peek\<close> returns \<open>n\<close> and no error with the buffer
  \<open>b'\<close>, the peeked slot holds exactly the \<open>n\<close> bytes \<^verbatim>\<open>b'[:n]\<close>, and the next
  \<^verbatim>\<open>Read\<close>, into a buffer \<open>b2\<close> of at least \<open>n\<close> bytes, returns \<open>n\<close> and no error
  with those same \<open>n\<close> bytes at the front of \<open>b2\<close>. That \<^verbatim>\<open>Read\<close> only clears the
  peeked slot: the state of the collaborators and the log of calls are unchanged, so
  the receiver is not called again. (A \<^verbatim>\<open>peek\<close> that succeeds is on a track in remote
  mode.)
\<close>

theorem peek_then_Read:
  assumes "peek readRTP b w = Return ((n, None), b', w')"
    and "n \<le> int (length b2)"
  shows "0 \<le> n \<and>
         peeked (track w') = Some (take (nat n) b') \<and>
         length (take (nat n) b') = nat n \<and>
         Read readRTP b2 w' =
           ((n, None), take (nat n) b' @ drop (nat n) b2,
            w'\<lparr>track := (track w')\<lparr>peeked := None\<rparr>\<rparr>)"
proof -
  from Read_after_peek [OF assms(1), of b2] have
    n: "0 \<le> n" and rest: "peeked (track w') = Some (take (nat n) b')"
      "length (take (nat n) b') = nat n"
    and rd: "Read readRTP b2 w' =
           ((int (min (length b2) (nat n)), None),
            take (min (length b2) (nat n)) (take (nat n) b') @
              drop (min (length b2) (nat n)) b2,
            w'\<lparr>track := (track w')\<lparr>peeked := None\<rparr>\<rparr>)" by simp_all
  from n assms(2) have "min (length b2) (nat n) = nat n" by simp
  with rd n rest show ?thesis by simp
qed

text \<open>
  The receiver has the packets 1 2 3 and 4. \<^verbatim>\<open>peek\<close> takes the first; \<^verbatim>\<open>Read\<close> into
  five bytes returns it again, and the packet 4 is still with the receiver.
\<close>

theorem peek_then_Read_witness:
  "peek queue_readRTP [0, 0, 0, 0]
     (example_world (example_track (Some 5) [] 0 None) [[1, 2, 3], [4]]) =
     Return ((3, None), [1, 2, 3, 0],
       \<lparr>track = example_track (Some 5) [] 0 (Some [1, 2, 3]), env = [[4]],
        calls = [CallReadRTP 5 4]\<rparr>) \<and>
   (3 :: int) \<le> int (length [9 :: byte, 9, 9, 9, 9]) \<and>
   Read queue_readRTP [9, 9, 9, 9, 9]
     \<lparr>track = example_track (Some 5) [] 0 (Some [1, 2, 3]), env = [[4]],
      calls = [CallReadRTP 5 4]\<rparr> =
     ((3, None), [1, 2, 3, 9, 9],
      \<lparr>track = example_track (Some 5) [] 0 None, env = [[4]], calls = [CallReadRTP 5 4]\<rparr>)"
proof -
  let ?w = "example_world (example_track (Some 5) [] 0 None) [[1 :: byte, 2, 3], [4]]"
  let ?w' = "\<lparr>track = example_track (Some 5) [] 0 (Some [1, 2, 3]), env = [[4 :: byte]],
        calls = [CallReadRTP 5 4]\<rparr>"
  have pk: "peek queue_readRTP [0, 0, 0, 0] ?w = Return ((3, None), [1, 2, 3, 0], ?w')"
    by (simp add: peek_def Read_def queue_readRTP_def copy_def example_world_def
        example_track_def eval_nat_numeral)
  have len: "(3 :: int) \<le> int (length [9 :: byte, 9, 9, 9, 9])" by simp
  from peek_then_Read [OF pk len] pk len
  show ?thesis by (simp add: example_track_def eval_nat_numeral)
qed

text \<open>
  C7. \<^verbatim>\<open>determinePayloadType\<close> peeks once into a buffer of \<open>receiveMTU\<close> bytes. If the
  peek and the deserialization of the peeked bytes both succeed, it returns no error
  and only sets \<open>payloadType\<close> to the payload type of the packet's header. If the peek
  fails, or the deserialization fails, it returns that error and \<open>payloadType\<close> is the
  one before the call.
\<close>

theorem determinePayloadType_sets_or_keeps:
  "(peek readRTP (replicate receiveMTU 0) w = Return ((n, None), b', w') \<and>
    unmarshal (take (nat n) b') = Inr r \<longrightarrow>
      determinePayloadType readRTP unmarshal receiveMTU w =
        Return (None, w'\<lparr>track := (track w')\<lparr>payloadType := PayloadType (Header r)\<rparr>\<rparr>)) \<and>
   (peek readRTP (replicate receiveMTU 0) w = Return ((n, Some err), b', w') \<longrightarrow>
      determinePayloadType readRTP unmarshal receiveMTU w = Return (Some err, w') \<and>
      payloadType (track w') = payloadType (track w)) \<and>
   (peek readRTP (replicate receiveMTU 0) w = Return ((n, None), b', w') \<and>
    unmarshal (take (nat n) b') = Inl err \<longrightarrow>
      determinePayloadType readRTP unmarshal receiveMTU w = Return (Some err, w') \<and>
      payloadType (track w') = payloadType (track w))"
proof (intro conjI impI)
  assume a: "peek readRTP (replicate receiveMTU 0) w = Return ((n, None), b', w') \<and>
    unmarshal (take (nat n) b') = Inr r"
  with peek_ok [of readRTP "replicate receiveMTU 0" w n b' w']
  have "0 \<le> n" "n \<le> int (length b')" by simp_all
  with a show "determinePayloadType readRTP unmarshal receiveMTU w =
        Return (None, w'\<lparr>track := (track w')\<lparr>payloadType := PayloadType (Header r)\<rparr>\<rparr>)"
    by (simp add: determinePayloadType_def)
next
  assume a: "peek readRTP (replicate receiveMTU 0) w = Return ((n, Some err), b', w')"
  then show "determinePayloadType readRTP unmarshal receiveMTU w = Return (Some err, w')"
    by (simp add: determinePayloadType_def)
  from peek_frame [OF a] show "payloadType (track w') = payloadType (track w)" by simp
next
  assume a: "peek readRTP (replicate receiveMTU 0) w = Return ((n, None), b', w') \<and>
    unmarshal (take (nat n) b') = Inl err"
  with peek_ok [of readRTP "replicate receiveMTU 0" w n b' w']
  have "0 \<le> n" "n \<le> int (length b')" by simp_all
  with a show "determinePayloadType readRTP unmarshal receiveMTU w = Return (Some err, w')"
    by (simp add: determinePayloadType_def)
  from a peek_frame [of readRTP "replicate receiveMTU 0" w "(n, None)" b' w']
  show "payloadType (track w') = payloadType (track w)" by simp
qed

text \<open>
  With \<open>receiveMTU = 4\<close> and a track whose payload type is 0: a packet 128 96 5 sets
  the payload type to 96; an empty queue makes the peek fail; a packet of one byte does
  not deserialize. In the last two runs the payload type is still 0.
\<close>

theorem determinePayloadType_sets_or_keeps_witness:
  "determinePayloadType queue_readRTP short_Unmarshal 4
     (example_world (example_track (Some 5) [] 0 None) [[128, 96, 5]]) =
     Return (None,
       \<lparr>track = (example_track (Some 5) [] 0 (Some [128, 96, 5]))\<lparr>payloadType := 96\<rparr>,
        env = [], calls = [CallReadRTP 5 4]\<rparr>) \<and>
   determinePayloadType queue_readRTP short_Unmarshal 4
     (example_world (example_track (Some 5) [] 0 None) []) =
     Return (Some (ExternalError ''EOF''),
       \<lparr>track = example_track (Some 5) [] 0 None, env = [], calls = [CallReadRTP 5 4]\<rparr>) \<and>
   determinePayloadType queue_readRTP short_Unmarshal 4
     (example_world (example_track (Some 5) [] 0 None) [[9]]) =
     Return (Some (ExternalError ''short packet''),
       \<lparr>track = example_track (Some 5) [] 0 (Some [9]), env = [],
        calls = [CallReadRTP 5 4]\<rparr>) \<and>
   payloadType (example_track (Some 5) [] 0 (Some [9])) = 0"
proof -
  let ?t = "example_track (Some 5) [] 0 None"
  let ?a = "example_world ?t [[128 :: byte, 96, 5]]"
  let ?a' = "\<lparr>track = example_track (Some 5) [] 0 (Some [128, 96, 5]), env = [] :: byte list list,
        calls = [CallReadRTP 5 4]\<rparr>"
  let ?b = "example_world ?t ([] :: byte list list)"
  let ?b' = "\<lparr>track = ?t, env = [] :: byte list list, calls = [CallReadRTP 5 4]\<rparr>"
  let ?c = "example_world ?t [[9 :: byte]]"
  let ?c' = "\<lparr>track = example_track (Some 5) [] 0 (Some [9]), env = [] :: byte list list,
        calls = [CallReadRTP 5 4]\<rparr>"
  have pa: "peek queue_readRTP (replicate 4 0) ?a = Return ((3, None), [128, 96, 5, 0], ?a')"
    by (simp add: peek_def Read_def queue_readRTP_def copy_def example_world_def
        example_track_def eval_nat_numeral)
  have ua: "short_Unmarshal (take (nat 3) [128, 96, 5, 0]) =
      Inr \<lparr>Header = \<lparr>PayloadType = 96\<rparr>, Payload = [5]\<rparr>"
    by (simp add: short_Unmarshal_def eval_nat_numeral)
  have pb: "peek queue_readRTP (replicate 4 0) ?b =
      Return ((0, Some (ExternalError ''EOF'')), [0, 0, 0, 0], ?b')"
    by (simp add: peek_def Read_def queue_readRTP_def example_world_def
        example_track_def eval_nat_numeral)
  have pc: "peek queue_readRTP (replicate 4 0) ?c = Return ((1, None), [9, 0, 0, 0], ?c')"
    by (simp add: peek_def Read_def queue_readRTP_def copy_def example_world_def
        example_track_def eval_nat_numeral)
  have uc: "short_Unmarshal (take (nat 1) [9, 0, 0, 0]) = Inl (ExternalError ''short packet'')"
    by (simp add: short_Unmarshal_def)
  from determinePayloadType_sets_or_keeps [of queue_readRTP 4 ?a 3 "[128, 96, 5, 0]" ?a'
      short_Unmarshal "\<lparr>Header = \<lparr>PayloadType = 96\<rparr>, Payload = [5]\<rparr>" "ExternalError ''EOF''"]
    pa ua
  have A: "determinePayloadType queue_readRTP short_Unmarshal 4 ?a =
      Return (None, ?a'\<lparr>track := (track ?a')\<lparr>payloadType := 96\<rparr>\<rparr>)"
    by simp
  from determinePayloadType_sets_or_keeps [of queue_readRTP 4 ?b 0 "[0, 0, 0, 0]" ?b'
      short_Unmarshal "\<lparr>Header = \<lparr>PayloadType = 96\<rparr>, Payload = [5]\<rparr>" "ExternalError ''EOF''"]
    pb
  have B: "determinePayloadType queue_readRTP short_Unmarshal 4 ?b =
      Return (Some (ExternalError ''EOF''), ?b')"
    by simp
  from determinePayloadType_sets_or_keeps [of queue_readRTP 4 ?c 1 "[9, 0, 0, 0]" ?c'
      short_Unmarshal "\<lparr>Header = \<lparr>PayloadType = 96\<rparr>, Payload = [5]\<rparr>"
      "ExternalError ''short packet''"]
    pc uc
  have C: "determinePayloadType queue_readRTP short_Unmarshal 4 ?c =
      Return (Some (ExternalError ''short packet''), ?c')"
    by simp
  from A B C show ?thesis by (simp add: example_track_def)
qed

text \<open>
  C10. When the peek of \<^verbatim>\<open>determinePayloadType\<close> succeeds with \<open>n\<close> bytes and their
  deserialization fails, the call returns the deserialization error, \<open>payloadType\<close>
  is the one before the call, and the peeked slot holds those \<open>n\<close> bytes: a track
  whose peeked slot was empty has changed. The next \<^verbatim>\<open>Read\<close> takes its bytes from the
  peeked slot and does not call the receiver (the state of the collaborators and the
  log of calls are unchanged): it returns no error and those bytes, all \<open>n\<close> of them
  when its buffer \<open>b2\<close> has room for them, and the first \<open>length b2\<close> otherwise.
\<close>

theorem determinePayloadType_failed_unmarshal_keeps_peeked:
  assumes "peek readRTP (replicate receiveMTU 0) w = Return ((n, None), b', w')"
    and "unmarshal (take (nat n) b') = Inl err"
  shows "determinePayloadType readRTP unmarshal receiveMTU w = Return (Some err, w') \<and>
         payloadType (track w') = payloadType (track w) \<and>
         peeked (track w') = Some (take (nat n) b') \<and>
         (peeked (track w) = None \<longrightarrow> track w' \<noteq> track w) \<and>
         Read readRTP b2 w' =
           ((int (min (length b2) (nat n)), None),
            take (min (length b2) (nat n)) (take (nat n) b') @
              drop (min (length b2) (nat n)) b2,
            w'\<lparr>track := (track w')\<lparr>peeked := None\<rparr>\<rparr>)"
proof -
  from peek_ok [OF assms(1)] have n: "0 \<le> n" "n \<le> int (length b')" by simp_all
  with assms have d: "determinePayloadType readRTP unmarshal receiveMTU w = Return (Some err, w')"
    by (simp add: determinePayloadType_def)
  from peek_frame [OF assms(1)] have pt: "payloadType (track w') = payloadType (track w)"
    by simp
  from Read_after_peek [OF assms(1), of b2] have
    pk: "peeked (track w') = Some (take (nat n) b')"
    and rd: "Read readRTP b2 w' =
           ((int (min (length b2) (nat n)), None),
            take (min (length b2) (nat n)) (take (nat n) b') @
              drop (min (length b2) (nat n)) b2,
            w'\<lparr>track := (track w')\<lparr>peeked := None\<rparr>\<rparr>)" by simp_all
  from pk have "peeked (track w) = None \<longrightarrow> track w' \<noteq> track w" by auto
  with d pt pk rd show ?thesis by simp
qed

text \<open>
  The receiver has the packets 9 and 1 2. The one byte 9 does not deserialize; the next
  \<^verbatim>\<open>Read\<close> returns the byte 9 again and the packet 1 2 is still with the receiver.
\<close>

theorem determinePayloadType_failed_unmarshal_keeps_peeked_witness:
  "peek queue_readRTP (replicate 4 0)
     (example_world (example_track (Some 5) [] 0 None) [[9], [1, 2]]) =
     Return ((1, None), [9, 0, 0, 0],
       \<lparr>track = example_track (Some 5) [] 0 (Some [9]), env = [[1, 2]],
        calls = [CallReadRTP 5 4]\<rparr>) \<and>
   short_Unmarshal (take (nat 1) [9, 0, 0, 0]) = Inl (ExternalError ''short packet'') \<and>
   determinePayloadType queue_readRTP short_Unmarshal 4
     (example_world (example_track (Some 5) [] 0 None) [[9], [1, 2]]) =
     Return (Some (ExternalError ''short packet''),
       \<lparr>track = example_track (Some 5) [] 0 (Some [9]), env = [[1, 2]],
        calls = [CallReadRTP 5 4]\<rparr>) \<and>
   Read queue_readRTP [7, 7]
     \<lparr>track = example_track (Some 5) [] 0 (Some [9]), env = [[1, 2]],
      calls = [CallReadRTP 5 4]\<rparr> =
     ((1, None), [9, 7],
      \<lparr>track = example_track (Some 5) [] 0 None, env = [[1, 2]],
       calls = [CallReadRTP 5 4]\<rparr>)"
proof -
  let ?w = "example_world (example_track (Some 5) [] 0 None) [[9 :: byte], [1, 2]]"
  let ?w' = "\<lparr>track = example_track (Some 5) [] 0 (Some [9]), env = [[1 :: byte, 2]],
        calls = [CallReadRTP 5 4]\<rparr>"
  have pk: "peek queue_readRTP (replicate 4 0) ?w = Return ((1, None), [9, 0, 0, 0], ?w')"
    by (simp add: peek_def Read_def queue_readRTP_def copy_def example_world_def
        example_track_def eval_nat_numeral)
  have un: "short_Unmarshal (take (nat 1) [9, 0, 0, 0]) = Inl (ExternalError ''short packet'')"
    by (simp add: short_Unmarshal_def)
  from determinePayloadType_failed_unmarshal_keeps_peeked [where readRTP = queue_readRTP
      and receiveMTU = 4 and w = ?w and n = 1 and b' = "[9, 0, 0, 0]" and w' = ?w'
      and unmarshal = short_Unmarshal and err = "ExternalError ''short packet''"
      and ?b2.0 = "[7, 7]"] pk un
  show ?thesis by (simp add: example_track_def)
qed

end
